theory Spec2Isabelle
  imports Main
begin

section \<open>JavaScript values and the document store\<close>

text \<open>
  Snapshot values of the real-time database and JavaScript objects built by the client
  are modelled as a tree. An object is an association list (key order as in the source
  literal). \<open>JUndefined\<close> is what a missing property reads as.
\<close>

datatype jsval =
    JUndefined
  | JNull
  | JBool bool
  | JNum int
  | JStr string
  | JObj "(string \<times> jsval) list"

text \<open>JavaScript truthiness, as used by \<^verbatim>\<open>!x\<close>, \<^verbatim>\<open>x || y\<close> and \<^verbatim>\<open>if (x)\<close>.\<close>

fun truthy :: "jsval \<Rightarrow> bool" where
  "truthy JUndefined = False"
| "truthy JNull = False"
| "truthy (JBool b) = b"
| "truthy (JNum n) = (n \<noteq> 0)"
| "truthy (JStr s) = (s \<noteq> [])"
| "truthy (JObj kvs) = True"

text \<open>Truthiness of a value of type \<^verbatim>\<open>string | null\<close>.\<close>

fun truthy_str :: "string option \<Rightarrow> bool" where
  "truthy_str None = False"
| "truthy_str (Some s) = (s \<noteq> [])"

text \<open>
  Property read with optional chaining, \<^verbatim>\<open>v?.k\<close>, for the keys the source reads
  (\<^verbatim>\<open>permission\<close>, \<^verbatim>\<open>name\<close>): only an object has them.
\<close>

fun get_prop :: "jsval \<Rightarrow> string \<Rightarrow> jsval" where
  "get_prop (JObj kvs) k = (case map_of kvs k of Some v \<Rightarrow> v | None \<Rightarrow> JUndefined)"
| "get_prop v k = JUndefined"

text \<open>
  A thrown value: \<^verbatim>\<open>new Error(msg)\<close> has no \<^verbatim>\<open>code\<close>; a failure of the
  store carries one (\<^verbatim>\<open>e.code === 'PERMISSION_DENIED'\<close>).
\<close>

datatype js_error = JsError (err_code: "string option") (err_message: string)

definition Error :: "string \<Rightarrow> js_error" where
  "Error msg = JsError None msg"

text \<open>
  A database reference is its path, a list of non-empty segments; the root is the empty
  path. \<^verbatim>\<open>ref.key\<close> is the last segment and \<^verbatim>\<open>null\<close> at the root;
  \<^verbatim>\<open>ref.child(p)\<close> appends the segments of \<^verbatim>\<open>p\<close>, which are separated by a slash.
  The five keys of the copy flow and the key \<^verbatim>\<open>name\<close> are constants that pass the
  client library's check of a path string; where a path is built from a variable the
  check is made explicitly (see below).
\<close>

type_synonym reference = "string list"

fun split_on :: "char \<Rightarrow> string \<Rightarrow> string list" where
  "split_on c [] = [[]]"
| "split_on c (x # xs) =
     (if x = c then [] # split_on c xs
      else (case split_on c xs of
              [] \<Rightarrow> [[x]]
            | w # ws \<Rightarrow> (x # w) # ws))"

definition split_path :: "string \<Rightarrow> string list" where
  "split_path p = filter (\<lambda>w. w \<noteq> []) (split_on (CHR ''/'') p)"

definition root :: reference where
  "root = []"

definition child :: "reference \<Rightarrow> string \<Rightarrow> reference" where
  "child r p = r @ split_path p"

definition key :: "reference \<Rightarrow> string option" where
  "key r = (if r = [] then None else Some (last r))"

text \<open>
  \<^verbatim>\<open>ref.push()\<close> without a value only allocates a child with a fresh key; the key is
  chosen by the client library and is a parameter here.
\<close>

definition push :: "reference \<Rightarrow> string \<Rightarrow> reference" where
  "push r fresh = r @ [fresh]"

text \<open>\<^verbatim>\<open>ref.key!\<close>: the key, read where the source asserts that it is not null.\<close>

definition key_bang :: "reference \<Rightarrow> string" where
  "key_bang r = (case key r of Some k \<Rightarrow> k | None \<Rightarrow> [])"

text \<open>
  The store as the client sees it: what a point-in-time read of a location resolves to
  (a snapshot value, or a rejection), and whether a write to a location is rejected.
\<close>

record store =
  once_value :: "reference \<Rightarrow> js_error + jsval"
  write_result :: "reference \<Rightarrow> js_error option"

text \<open>Everything the client does to the outside, in the order it does it.\<close>

datatype effect =
    Once reference
  | Update reference "(string \<times> jsval) list"
  | SetValue reference jsval
  | UpdateProfile "string option"
  | Navigate string bool
  | Alert string
  | OnClose

section \<open>The atoms of \<^verbatim>\<open>firebaseAtoms.ts\<close>\<close>

text \<open>
  Modelled from the spec: the permission type of \<^verbatim>\<open>atoms/workspace\<close>, which is not
  part of the sources at hand. The spec's data model gives a permission as one of OWNER,
  READ_WRITE, READ and PRIVATE; an atom holding none is \<open>None\<close>.
\<close>

datatype permission = OWNER | READ_WRITE | READ | PRIVATE

record user =
  uid :: string
  displayName :: "string option"

record file_id =
  id' :: string
  isNewFile :: bool

record payload =
  newId :: "string option"
  isNewFile' :: "bool option"

record atoms =
  baseFirebaseUserAtom :: "user option"
  userNameAtom :: "string option"
  baseFileIdAtom :: "file_id option"
  firebaseRefAtom :: "reference option"
  userRefAtom :: "reference option"
  actualUserPermissionAtom :: "permission option"
  defaultPermissionAtom :: "permission option"

subsection \<open>Identity adapter\<close>

text \<open>
  \<^verbatim>\<open>animals[i]\<close> inside a string concatenation: an index outside the array reads
  \<^verbatim>\<open>undefined\<close>, which concatenates as the word.
\<close>

definition js_index :: "string list \<Rightarrow> int \<Rightarrow> string" where
  "js_index xs i = (if 0 \<le> i \<and> i < int (length xs) then xs ! nat i else ''undefined'')"

text \<open>
  \<^verbatim>\<open>Math.floor(animals.length * Math.random())\<close> in double arithmetic.
  \<^verbatim>\<open>Math.random()\<close> returns a double in the half-open unit interval: the number
  \<open>m / 2 ^ e\<close> for a significand \<open>m\<close> below \<open>2 ^ 53\<close> and an exponent \<open>e\<close> of at most 1074,
  with \<open>m < 2 ^ e\<close>. The length \<open>n\<close> of an array is an integer below \<open>2 ^ 32\<close> and so is a
  double itself. The exact product is \<open>n * m / 2 ^ e\<close>; the multiplication returns the
  double nearest to it, ties going to the even significand. With the common denominator
  \<open>2 ^ e\<close> that is the integer \<open>n * m\<close> rounded to 53 significant bits.
\<close>

fun bit_length :: "nat \<Rightarrow> nat" where
  "bit_length n = (if n = 0 then 0 else Suc (bit_length (n div 2)))"

declare bit_length.simps [simp del]

definition round_to_double :: "nat \<Rightarrow> nat" where
  "round_to_double N =
     (if N < 2 ^ 53 then N
      else (let s = bit_length N - 53;
                q = N div 2 ^ s;
                r = N mod 2 ^ s;
                half = 2 ^ (s - 1)
            in (if half < r \<or> (r = half \<and> odd q) then q + 1 else q) * 2 ^ s))"

definition floor_of_product :: "nat \<Rightarrow> nat \<Rightarrow> nat \<Rightarrow> nat" where
  "floor_of_product n m e = round_to_double (n * m) div 2 ^ e"

definition unit_double :: "nat \<Rightarrow> nat \<Rightarrow> bool" where
  "unit_double m e = (m < 2 ^ 53 \<and> e \<le> 1074 \<and> m < 2 ^ e)"

text \<open>
  The write function of \<^verbatim>\<open>firebaseUserAtom\<close>. The list \<^verbatim>\<open>animals\<close> (from
  \<^verbatim>\<open>scripts/animals\<close>) is a parameter, and so is the double \<open>m / 2 ^ e\<close> that
  \<^verbatim>\<open>Math.random()\<close> returns.
\<close>

definition firebaseUserAtom_write ::
  "string list \<Rightarrow> nat \<Rightarrow> nat \<Rightarrow> atoms \<Rightarrow> user option \<Rightarrow> atoms \<times> effect list" where
  "firebaseUserAtom_write animals m e s u =
     (let s1 = s\<lparr>baseFirebaseUserAtom := u\<rparr> in
      case u of
        Some usr \<Rightarrow>
          (let name = ''Anonymous ''
                 @ js_index animals (int (floor_of_product (length animals) m e)) in
           if \<not> truthy_str (displayName usr)
           then (s1\<lparr>userNameAtom := Some name\<rparr>, [UpdateProfile (Some name)])
           else (s1\<lparr>userNameAtom := displayName usr\<rparr>, []))
      | None \<Rightarrow> (s1\<lparr>userNameAtom := None\<rparr>, []))"

subsection \<open>Permission-gated accessors\<close>

definition authenticatedFirebaseRefAtom :: "atoms \<Rightarrow> reference option" where
  "authenticatedFirebaseRefAtom s =
     (let permission = actualUserPermissionAtom s; ref = firebaseRefAtom s in
      if permission = Some OWNER \<or> permission = Some READ_WRITE \<or> permission = Some READ
      then ref else None)"

definition authenticatedUserRefAtom :: "atoms \<Rightarrow> reference option" where
  "authenticatedUserRefAtom s =
     (let permission = actualUserPermissionAtom s; ref = userRefAtom s in
      if permission = Some OWNER \<or> permission = Some READ_WRITE \<or> permission = Some READ
      then ref else None)"

subsection \<open>Workspace reference resolver\<close>

text \<open>
  The client library checks a path string before it builds a reference from it: the
  string must be non-empty and hold none of the characters \<^verbatim>\<open>[ ] . # $\<close> and no
  control character; otherwise \<^verbatim>\<open>database.ref\<close> and \<^verbatim>\<open>Reference.child\<close> throw.
  The exception the library makes for \<^verbatim>\<open>.info\<close> at the root does not matter here: every
  path the sources build from a variable starts with a dash.
\<close>

definition invalid_path_char :: "char \<Rightarrow> bool" where
  "invalid_path_char c =
     (c \<in> set ''[].#$'' \<or> (of_char c :: nat) < 32 \<or> (of_char c :: nat) = 127)"

definition isValidPathString :: "string \<Rightarrow> bool" where
  "isValidPathString p = (p \<noteq> [] \<and> list_all (\<lambda>c. \<not> invalid_path_char c) p)"

definition invalid_path_error :: "string \<Rightarrow> string \<Rightarrow> js_error" where
  "invalid_path_error fnName p =
     Error (fnName @ '' failed: First argument was an invalid path = '' @ [CHR 0x22] @ p
            @ [CHR 0x22] @ ''. Paths must be non-empty strings and can't contain ''
            @ [CHR 0x22] @ ''.'' @ [CHR 0x22] @ '', '' @ [CHR 0x22] @ ''#'' @ [CHR 0x22]
            @ '', '' @ [CHR 0x22] @ ''$'' @ [CHR 0x22] @ '', '' @ [CHR 0x22] @ ''[''
            @ [CHR 0x22] @ '', or '' @ [CHR 0x22] @ '']'' @ [CHR 0x22])"

text \<open>\<^verbatim>\<open>ref.child(p)\<close> and \<^verbatim>\<open>firebase.database().ref(p)\<close> for a path built from a variable.\<close>

definition checked_child :: "reference \<Rightarrow> string \<Rightarrow> js_error + reference" where
  "checked_child r p =
     (if isValidPathString p then Inr (child r p)
      else Inl (invalid_path_error ''Reference.child'' p))"

definition database_ref :: "string \<Rightarrow> js_error + reference" where
  "database_ref p =
     (if isValidPathString p then Inr (split_path p)
      else Inl (invalid_path_error ''database.ref'' p))"

text \<open>
  The write function of \<^verbatim>\<open>fileIdAtom\<close>. \<^verbatim>\<open>fresh\<close> is the key that
  \<^verbatim>\<open>ref.push()\<close> would allocate and \<^verbatim>\<open>search\<close> is \<^verbatim>\<open>window.location.search\<close>.
  The guard compares the stored \<^verbatim>\<open>id\<close> (\<^verbatim>\<open>undefined\<close> when the atom holds null)
  with \<^verbatim>\<open>newId\<close> by strict equality and requires \<^verbatim>\<open>newId\<close> to be truthy. When
  the library rejects the path the write throws before it sets an atom.
\<close>

definition already_loaded :: "atoms \<Rightarrow> string option \<Rightarrow> bool" where
  "already_loaded s nid =
     (case (baseFileIdAtom s, nid) of
        (Some f, Some n) \<Rightarrow> id' f = n \<and> n \<noteq> []
      | _ \<Rightarrow> False)"

definition fileIdAtom_write ::
  "string \<Rightarrow> string \<Rightarrow> atoms \<Rightarrow> payload option \<Rightarrow> js_error + atoms \<times> effect list" where
  "fileIdAtom_write fresh search s pl =
     (case pl of
        None \<Rightarrow> Inr (s\<lparr>baseFileIdAtom := None, firebaseRefAtom := None\<rparr>, [])
      | Some p \<Rightarrow>
          if already_loaded s (newId p) then Inr (s, [])
          else
            (case (if truthy_str (newId p)
                   then checked_child root (CHR ''-'' # the (newId p))
                   else Inr (push root fresh)) of
               Inl e \<Rightarrow> Inl e
             | Inr ref \<Rightarrow>
                 (let new = (isNewFile' p = Some True);
                      s1 = s\<lparr>baseFileIdAtom := Some \<lparr>id' = key_bang ref, isNewFile = new\<rparr>\<rparr>;
                      nav = (if new
                             then [Navigate (''/'' @ drop 1 (key_bang ref) @ search) True]
                             else [])
                  in Inr (s1\<lparr>firebaseRefAtom := Some ref\<rparr>, nav))))"

subsection \<open>Workspace join protocol\<close>

text \<open>
  A write is logged when it is issued; the store then accepts or rejects it. A rejected
  promise that is awaited is a throw.
\<close>

definition issue_write :: "store \<Rightarrow> reference \<Rightarrow> js_error + unit" where
  "issue_write st r = (case write_result st r of Some e \<Rightarrow> Inl e | None \<Rightarrow> Inr ())"

text \<open>
  \<^verbatim>\<open>joinNewWorkspaceAsOwnerAtom\<close>. The helper \<^verbatim>\<open>colorFromUserId\<close> (from
  \<^verbatim>\<open>scripts/colorFromUserId\<close>) is a parameter.
\<close>

definition joinNewWorkspaceAsOwnerAtom ::
  "(string \<Rightarrow> string) \<Rightarrow> store \<Rightarrow> atoms \<Rightarrow> (js_error + unit) \<times> effect list" where
  "joinNewWorkspaceAsOwnerAtom colorFromUserId st s =
     (case firebaseRefAtom s of
        None \<Rightarrow> (Inl (Error ''ref must be set before workspace can be joined''), [])
      | Some ref \<Rightarrow>
          if \<not> (case userRefAtom s of None \<Rightarrow> False | Some userRef \<Rightarrow> truthy_str (key userRef))
          then (Inl (Error
                  ''userRef (and userRef.key) must be set before workspace can be joined''), [])
          else if \<not> truthy_str (userNameAtom s)
          then (Inl (Error ''user name must be set before workspace can be joined''), [])
          else
            (let k = the (key (the (userRefAtom s)));
                 name = the (userNameAtom s)
             in (issue_write st ref,
                 [Update ref
                    [(''users/'' @ k,
                      JObj [(''name'', JStr name),
                            (''color'', JStr (colorFromUserId k)),
                            (''permission'', JStr ''OWNER'')]),
                     (''settings/defaultPermission'', JStr ''READ_WRITE'')]])))"

text \<open>
  The rejection handler of the join-existing flow: it sees a failure of the read and of
  whatever the fulfilment handler returned.
\<close>

definition catch_permission_denied :: "js_error + unit \<Rightarrow> js_error + unit" where
  "catch_permission_denied r =
     (case r of
        Inl e \<Rightarrow> if err_code e = Some ''PERMISSION_DENIED'' then Inr () else Inl e
      | Inr u \<Rightarrow> Inr u)"

text \<open>The fulfilment handler of the point-in-time read, up to its (optional) write.\<close>

definition on_snapshot ::
  "(string \<Rightarrow> string) \<Rightarrow> store \<Rightarrow> reference \<Rightarrow> string \<Rightarrow> permission \<Rightarrow> jsval
     \<Rightarrow> (js_error + unit) \<times> effect list" where
  "on_snapshot colorFromUserId st userRef name perm snap =
     (if perm = PRIVATE \<and> \<not> truthy (get_prop snap ''permission'') then (Inr (), [])
      else if \<not> truthy (get_prop snap ''name'')
      then (issue_write st userRef,
            [Update userRef
               [(''name'', JStr name), (''color'', JStr (colorFromUserId (key_bang userRef)))]])
      else if get_prop snap ''name'' \<noteq> JStr name
      then (issue_write st (child userRef ''name''),
            [SetValue (child userRef ''name'') (JStr name)])
      else (Inr (), []))"

definition joinExistingWorkspaceWithDefaultPermissionAtom ::
  "(string \<Rightarrow> string) \<Rightarrow> store \<Rightarrow> atoms \<Rightarrow> (js_error + unit) \<times> effect list" where
  "joinExistingWorkspaceWithDefaultPermissionAtom colorFromUserId st s =
     (case firebaseRefAtom s of
        None \<Rightarrow> (Inl (Error ''ref must be set before workspace can be joined''), [])
      | Some ref \<Rightarrow>
          if \<not> (case userRefAtom s of None \<Rightarrow> False | Some userRef \<Rightarrow> truthy_str (key userRef))
          then (Inl (Error
                  ''userRef (and userRef.key) must be set before workspace can be joined''), [])
          else if \<not> truthy_str (userNameAtom s)
          then (Inl (Error ''user name must be set before workspace can be joined''), [])
          else
            (case defaultPermissionAtom s of
               None \<Rightarrow> (Inl (Error ''permission must be set before workspace can be joined''), [])
             | Some perm \<Rightarrow>
                 (let userRef = the (userRefAtom s);
                      name = the (userNameAtom s)
                  in case once_value st userRef of
                       Inl e \<Rightarrow> (catch_permission_denied (Inl e), [Once userRef])
                     | Inr snap \<Rightarrow>
                         (let (r, ws) = on_snapshot colorFromUserId st userRef name perm snap
                          in (catch_permission_denied r, Once userRef # ws)))))"

section \<open>The copy flow of \<^verbatim>\<open>CopyFilePage.tsx\<close>\<close>

definition keysToCopy :: "string list" where
  "keysToCopy = [''editor-cpp'', ''editor-java'', ''editor-py'', ''settings'', ''input'']"

text \<open>Decimal notation of an array index, as a property key.\<close>

fun show_nat :: "nat \<Rightarrow> string" where
  "show_nat n =
     (if n < 10 then [''0123456789'' ! n]
      else show_nat (n div 10) @ [''0123456789'' ! (n mod 10)])"

declare show_nat.simps [simp del]

text \<open>
  The own enumerable properties that a rest pattern collects: the entries of an object,
  the indexed characters of a string, nothing for a number or a boolean.
\<close>

fun own_entries :: "jsval \<Rightarrow> (string \<times> jsval) list" where
  "own_entries (JObj kvs) = kvs"
| "own_entries (JStr str) = map (\<lambda>i. (show_nat i, JStr [str ! i])) [0..<length str]"
| "own_entries v = []"

text \<open>
  \<^verbatim>\<open>const { users, defaultPermission, ...toKeep } = v || {}\<close>: the value, or the empty
  object when it is falsy, without the two named properties.
\<close>

definition toKeep :: "jsval \<Rightarrow> jsval" where
  "toKeep v =
     JObj (filter (\<lambda>(k, _). k \<noteq> ''users'' \<and> k \<noteq> ''defaultPermission'')
             (own_entries (if truthy v then v else JObj [])))"

text \<open>
  \<^verbatim>\<open>Promise.all\<close> over the reads: all snapshot values in request order, or a rejection.
  The store is taken to answer in request order, so the rejection is that of the first
  read that fails.
\<close>

fun promise_all :: "(js_error + 'a) list \<Rightarrow> js_error + 'a list" where
  "promise_all [] = Inr []"
| "promise_all (r # rs) =
     (case r of
        Inl e \<Rightarrow> Inl e
      | Inr v \<Rightarrow> (case promise_all rs of Inl e \<Rightarrow> Inl e | Inr vs \<Rightarrow> Inr (v # vs)))"

record page =
  page_atoms :: atoms
  permissionDenied :: bool

text \<open>The rejection handler of the copy flow.\<close>

definition copy_catch ::
  "page \<Rightarrow> js_error \<Rightarrow> effect list \<Rightarrow> (js_error + unit) \<times> page \<times> effect list" where
  "copy_catch pg e effs =
     (if err_code e = Some ''PERMISSION_DENIED''
      then (Inr (), pg\<lparr>permissionDenied := True\<rparr>, effs)
      else (Inl (Error (err_message e)), pg,
            effs @ [Alert (''Failed to clone file: '' @ err_message e)]))"

text \<open>
  The effect of \<^verbatim>\<open>CopyFilePage\<close> for the route parameter \<^verbatim>\<open>fileId\<close>.
  \<^verbatim>\<open>fresh\<close> is the key allocated for the new reference, \<^verbatim>\<open>fresh2\<close> the key a
  second \<^verbatim>\<open>push()\<close> inside \<^verbatim>\<open>fileIdAtom\<close> would allocate. A source identifier that
  the library rejects makes line 26 throw out of the effect, before any read; a throw of
  \<^verbatim>\<open>setFileId\<close> inside the fulfilment handler reaches the rejection handler.
\<close>

definition CopyFilePage_effect ::
  "store \<Rightarrow> string \<Rightarrow> string \<Rightarrow> string \<Rightarrow> page \<Rightarrow> string option
     \<Rightarrow> (js_error + unit) \<times> page \<times> effect list" where
  "CopyFilePage_effect st fresh fresh2 search pg fileId =
     (if (case fileId of None \<Rightarrow> True | Some queryId \<Rightarrow> length queryId \<noteq> 19)
      then (Inr (), pg, [Alert ''Error: Bad URL'', Navigate ''/'' True])
      else
        (case database_ref (CHR ''-'' # the fileId) of
           Inl e \<Rightarrow> (Inl e, pg, [])
         | Inr oldRef \<Rightarrow>
             (let newRef = push root fresh;
                  reads = map (child oldRef) keysToCopy
              in case promise_all (map (once_value st) reads) of
                   Inl e \<Rightarrow> copy_catch pg e (map Once reads)
                 | Inr data \<Rightarrow>
                     (let updateObject = map (\<lambda>(k, v). (k, toKeep v)) (zip keysToCopy data);
                          effs = map Once reads @ [SetValue newRef (JObj updateObject)]
                      in case write_result st newRef of
                           Some e \<Rightarrow> copy_catch pg e effs
                         | None \<Rightarrow>
                             (case fileIdAtom_write fresh2 search (page_atoms pg)
                                     (Some \<lparr>newId = Some (drop 1 (key_bang newRef)),
                                            isNewFile' = Some True\<rparr>) of
                                Inl e \<Rightarrow> copy_catch pg e effs
                              | Inr (s', nav) \<Rightarrow>
                                  (Inr (), pg\<lparr>page_atoms := s'\<rparr>, effs @ nav))))))"

section \<open>The settings modal of \<^verbatim>\<open>SettingsModal.tsx\<close>\<close>

text \<open>
  A settings object is a finite map from property names to values; a
  \<^verbatim>\<open>Partial<WorkspaceSettings>\<close> is one as well. The reducer of the draft spreads the old
  draft and then the new entries over it.
\<close>

type_synonym WorkspaceSettings = "string \<rightharpoonup> jsval"

definition reducer :: "WorkspaceSettings \<Rightarrow> WorkspaceSettings \<Rightarrow> WorkspaceSettings" where
  "reducer prev next = prev ++ next"

datatype tab_id = Tab_workspace | Tab_user | Tab_judge

text \<open>The component's own state: the draft, and the dirty flag held in a ref.\<close>

record modal =
  workspaceSettings :: WorkspaceSettings
  modal_name :: "string option"
  editorMode :: string
  dirtyRef :: bool
  tab :: tab_id

text \<open>The committed values the component reads from its context and atoms on a render.\<close>

record committed =
  realWorkspaceSettings :: WorkspaceSettings
  firebaseUser :: "user option"
  editorModeAtom :: string

definition SettingsModal_init :: "committed \<Rightarrow> modal" where
  "SettingsModal_init c =
     \<lparr>workspaceSettings = realWorkspaceSettings c, modal_name = None,
      editorMode = ''Normal'', dirtyRef = False, tab = Tab_workspace\<rparr>"

text \<open>The effect that runs when \<^verbatim>\<open>isOpen\<close> changes (and on mount).\<close>

definition isOpen_effect :: "bool \<Rightarrow> committed \<Rightarrow> modal \<Rightarrow> modal" where
  "isOpen_effect isOpen c m =
     (if isOpen
      then m\<lparr>workspaceSettings := reducer (workspaceSettings m) (realWorkspaceSettings c),
             modal_name := (case firebaseUser c of
                              None \<Rightarrow> None
                            | Some usr \<Rightarrow>
                                if truthy_str (displayName usr) then displayName usr else None),
             editorMode := editorModeAtom c,
             dirtyRef := False,
             tab := Tab_workspace\<rparr>
      else m)"

text \<open>
  \<^verbatim>\<open>closeWithoutSaving\<close>; \<^verbatim>\<open>confirmed\<close> is the user's answer to the confirmation
  dialog, asked only when the draft is dirty. The parent's \<^verbatim>\<open>onClose\<close> is logged.
\<close>

definition closeWithoutSaving :: "bool \<Rightarrow> modal \<Rightarrow> modal \<times> effect list" where
  "closeWithoutSaving confirmed m =
     (if dirtyRef m then (if confirmed then (m, [OnClose]) else (m, []))
      else (m, [OnClose]))"

definition onChange :: "WorkspaceSettings \<Rightarrow> modal \<Rightarrow> modal" where
  "onChange data m =
     m\<lparr>dirtyRef := True, workspaceSettings := reducer (workspaceSettings m) data\<rparr>"

definition onNameChange :: "string \<Rightarrow> modal \<Rightarrow> modal" where
  "onNameChange n m = m\<lparr>modal_name := Some n, dirtyRef := True\<rparr>"

definition onEditorModeChange :: "string \<Rightarrow> modal \<Rightarrow> modal" where
  "onEditorModeChange mode m = m\<lparr>editorMode := mode, dirtyRef := True\<rparr>"

text \<open>The \<^verbatim>\<open>onClose\<close> handler given to the dialog itself.\<close>

definition Dialog_onClose :: "modal \<Rightarrow> modal \<times> effect list" where
  "Dialog_onClose m = (m, [OnClose])"

section \<open>Observing the store operations of a flow\<close>

fun is_store_op :: "effect \<Rightarrow> bool" where
  "is_store_op (Once r) = True"
| "is_store_op (Update r kvs) = True"
| "is_store_op (SetValue r v) = True"
| "is_store_op e = False"

definition store_ops :: "effect list \<Rightarrow> effect list" where
  "store_ops effs = filter is_store_op effs"

section \<open>Concrete states used to exercise the flows\<close>

definition example_color :: "string \<Rightarrow> string" where
  "example_color k = CHR ''#'' # k"

definition null_atoms :: atoms where
  "null_atoms =
     \<lparr>baseFirebaseUserAtom = None, userNameAtom = None, baseFileIdAtom = None,
      firebaseRefAtom = None, userRefAtom = None, actualUserPermissionAtom = None,
      defaultPermissionAtom = None\<rparr>"

definition private_atoms :: atoms where
  "private_atoms =
     null_atoms\<lparr>userNameAtom := Some ''Anonymous Otter'',
                firebaseRefAtom := Some [''-abc''],
                userRefAtom := Some [''-abc'', ''users'', ''u1''],
                defaultPermissionAtom := Some PRIVATE\<rparr>"

definition shared_atoms :: atoms where
  "shared_atoms = private_atoms\<lparr>defaultPermissionAtom := Some READ_WRITE\<rparr>"

definition unnamed_private_atoms :: atoms where
  "unnamed_private_atoms = private_atoms\<lparr>userNameAtom := None\<rparr>"

definition unset_permission_atoms :: atoms where
  "unset_permission_atoms = private_atoms\<lparr>defaultPermissionAtom := None\<rparr>"

text \<open>A store that answers every read alike and accepts every write.\<close>

definition const_store :: "js_error + jsval \<Rightarrow> store" where
  "const_store answer = \<lparr>once_value = (\<lambda>r. answer), write_result = (\<lambda>r. None)\<rparr>"

definition permission_denied :: js_error where
  "permission_denied = JsError (Some ''PERMISSION_DENIED'') ''permission_denied at /-abc''"

definition network_error :: js_error where
  "network_error = JsError (Some ''NETWORK_ERROR'') ''offline''"

definition record_of_other_name :: jsval where
  "record_of_other_name =
     JObj [(''name'', JStr ''Old Name''), (''color'', JStr ''#u1''),
           (''permission'', JStr ''READ_WRITE'')]"

definition record_of_same_name :: jsval where
  "record_of_same_name =
     JObj [(''name'', JStr ''Anonymous Otter''), (''color'', JStr ''#u1''),
           (''permission'', JStr ''READ_WRITE'')]"

definition abc_new :: payload where
  "abc_new = \<lparr>newId = Some ''abc'', isNewFile' = Some True\<rparr>"

definition abc_plain :: payload where
  "abc_plain = \<lparr>newId = Some ''abc'', isNewFile' = None\<rparr>"

definition abc_loaded :: atoms where
  "abc_loaded =
     null_atoms\<lparr>baseFileIdAtom := Some \<lparr>id' = ''-abc'', isNewFile = True\<rparr>,
                firebaseRefAtom := Some [''-abc'']\<rparr>"

definition abc_reloaded :: atoms where
  "abc_reloaded =
     null_atoms\<lparr>baseFileIdAtom := Some \<lparr>id' = ''-abc'', isNewFile = False\<rparr>,
                firebaseRefAtom := Some [''-abc'']\<rparr>"

definition source_id :: string where
  "source_id = ''Mabcdefghijklmnopqr''"

definition source_cpp :: jsval where
  "source_cpp = JObj [(''users'', JObj [(''u1'', JStr ''cursor'')]), (''history'', JStr ''h'')]"

definition source_settings :: jsval where
  "source_settings =
     JObj [(''defaultPermission'', JStr ''PRIVATE''), (''workspaceName'', JStr ''w''),
           (''users'', JObj [(''u1'', JStr ''owner'')])]"

definition source_field :: "string \<Rightarrow> jsval" where
  "source_field k =
     (if k = ''editor-cpp'' then source_cpp
      else if k = ''settings'' then source_settings
      else JNull)"

definition source_store :: store where
  "source_store =
     \<lparr>once_value = (\<lambda>r. Inr (source_field (last r))), write_result = (\<lambda>r. None)\<rparr>"

definition copy_page :: page where
  "copy_page = \<lparr>page_atoms = null_atoms, permissionDenied = False\<rparr>"

definition committed0 :: committed where
  "committed0 =
     \<lparr>realWorkspaceSettings = [''defaultPermission'' \<mapsto> JStr ''READ_WRITE''],
      firebaseUser = None, editorModeAtom = ''Normal''\<rparr>"

definition rename_edit :: WorkspaceSettings where
  "rename_edit = [''workspaceName'' \<mapsto> JStr ''x'']"

definition edited :: modal where
  "edited = onChange rename_edit (isOpen_effect True committed0 (SettingsModal_init committed0))"

definition reopened :: modal where
  "reopened = isOpen_effect True committed0 (fst (closeWithoutSaving True edited))"

section \<open>Permission-gated accessors\<close>

text \<open>
  Claim C6. For every permission value and every raw reference, workspace-level or
  user-level, the gated accessor is a pure function of the two: it returns the reference
  unchanged when the permission is OWNER, READ_WRITE or READ, and null when the
  permission is PRIVATE or unset.
\<close>

theorem authenticated_refs_gate:
  "authenticatedFirebaseRefAtom (s\<lparr>actualUserPermissionAtom := Some OWNER\<rparr>) = firebaseRefAtom s
   \<and> authenticatedFirebaseRefAtom (s\<lparr>actualUserPermissionAtom := Some READ_WRITE\<rparr>)
       = firebaseRefAtom s
   \<and> authenticatedFirebaseRefAtom (s\<lparr>actualUserPermissionAtom := Some READ\<rparr>) = firebaseRefAtom s
   \<and> authenticatedFirebaseRefAtom (s\<lparr>actualUserPermissionAtom := Some PRIVATE\<rparr>) = None
   \<and> authenticatedFirebaseRefAtom (s\<lparr>actualUserPermissionAtom := None\<rparr>) = None
   \<and> authenticatedUserRefAtom (s\<lparr>actualUserPermissionAtom := Some OWNER\<rparr>) = userRefAtom s
   \<and> authenticatedUserRefAtom (s\<lparr>actualUserPermissionAtom := Some READ_WRITE\<rparr>) = userRefAtom s
   \<and> authenticatedUserRefAtom (s\<lparr>actualUserPermissionAtom := Some READ\<rparr>) = userRefAtom s
   \<and> authenticatedUserRefAtom (s\<lparr>actualUserPermissionAtom := Some PRIVATE\<rparr>) = None
   \<and> authenticatedUserRefAtom (s\<lparr>actualUserPermissionAtom := None\<rparr>) = None"
  by (simp add: authenticatedFirebaseRefAtom_def authenticatedUserRefAtom_def)

section \<open>Identity adapter\<close>

lemma bit_length_bounds: "0 < n \<Longrightarrow> 2 ^ (bit_length n - 1) \<le> n \<and> n < 2 ^ bit_length n"
proof (induction n rule: bit_length.induct)
  case (1 n)
  show ?case
  proof (cases "n div 2 = 0")
    case True
    with "1.prems" have "n = 1" by (simp add: div_eq_0_iff)
    then show ?thesis by (simp add: bit_length.simps [of "Suc 0"] bit_length.simps [of 0])
  next
    case False
    then have pos: "0 < n div 2" by simp
    with "1.IH" "1.prems" have ih: "2 ^ (bit_length (n div 2) - 1) \<le> n div 2"
      "n div 2 < 2 ^ bit_length (n div 2)" by auto
    have bl: "bit_length n = Suc (bit_length (n div 2))"
      using "1.prems" by (simp add: bit_length.simps [of n])
    have bpos: "0 < bit_length (n div 2)"
      using pos by (simp add: bit_length.simps [of "n div 2"])
    then obtain k where k: "bit_length (n div 2) = Suc k" by (cases "bit_length (n div 2)") auto
    from ih k have "2 * 2 ^ k \<le> n" "n < 2 * 2 ^ Suc k" by auto
    with bl k show ?thesis by simp
  qed
qed

lemma bit_length_eq: "2 ^ k \<le> n \<Longrightarrow> n < 2 ^ Suc k \<Longrightarrow> bit_length n = Suc k"
proof -
  assume a: "2 ^ k \<le> n" and b: "n < 2 ^ Suc k"
  then have pos: "0 < n" by (metis less_le_trans zero_less_numeral zero_less_power)
  from bit_length_bounds [OF pos] have lo: "2 ^ (bit_length n - 1) \<le> n" and hi: "n < 2 ^ bit_length n"
    by auto
  from a hi have x: "(2::nat) ^ k < 2 ^ bit_length n" by (rule le_less_trans)
  have 1: "k < bit_length n" by (rule power_less_imp_less_exp [OF _ x]) simp
  from lo b have y: "(2::nat) ^ (bit_length n - 1) < 2 ^ Suc k" by (rule le_less_trans)
  have 2: "bit_length n - 1 < Suc k" by (rule power_less_imp_less_exp [OF _ y]) simp
  from 1 2 show ?thesis by simp
qed

text \<open>
  The rounded product of an array length and a double below one stays below the length:
  the exact product is at least one unit of the length's last place away from it, more
  than half the spacing of the doubles there, so the rounding never reaches the length.
\<close>

lemma round_to_double_below:
  assumes n: "0 < n" "n < 2 ^ 53" and m: "m < 2 ^ 53" "m < 2 ^ e"
  shows "round_to_double (n * m) < n * 2 ^ e"
proof (cases "n * m < 2 ^ 53")
  case True
  have "n * m < n * 2 ^ e" using n(1) m(2) by simp
  with True show ?thesis by (simp add: round_to_double_def)
next
  case False
  define N where "N = n * m"
  define T where "T = n * 2 ^ e"
  define s where "s = bit_length N - 53"
  define half :: nat where "half = 2 ^ (s - 1)"
  define q where "q = N div 2 ^ s"
  define r where "r = N mod 2 ^ s"
  have big: "2 ^ 53 \<le> N" using False by (simp add: N_def)
  then have Npos: "0 < N" by (metis less_le_trans zero_less_numeral zero_less_power)
  have NT: "N < T" using n(1) m(2) by (simp add: N_def T_def)
  from bit_length_bounds [OF Npos] have lo: "2 ^ (bit_length N - 1) \<le> N"
    and hi: "N < 2 ^ bit_length N" by auto
  from big hi have x: "(2::nat) ^ 53 < 2 ^ bit_length N" by (rule le_less_trans)
  have L: "53 < bit_length N" by (rule power_less_imp_less_exp [OF _ x]) simp
  then have spos: "0 < s" by (simp add: s_def)
  have Ls: "bit_length N - 1 = (s - 1) + 53" using L by (simp add: s_def)
  have two_s: "(2::nat) ^ s = 2 * half" using spos by (simp add: half_def power_eq_if)
  have "half * 2 ^ 53 = (2::nat) ^ (bit_length N - 1)"
    by (simp only: Ls half_def power_add)
  with lo have h53: "half * 2 ^ 53 \<le> N" by simp
  have "N < n * 2 ^ 53" using n(1) m(1) by (simp add: N_def)
  also have "\<dots> \<le> 2 ^ 53 * (T - N)"
  proof -
    have "T - N = n * (2 ^ e - m)" by (simp add: T_def N_def diff_mult_distrib2)
    moreover have "1 \<le> 2 ^ e - m" using m(2) by simp
    ultimately have "n \<le> T - N" using n(1) by (metis mult.right_neutral mult_le_mono2)
    then show ?thesis by simp
  qed
  finally have "half * 2 ^ 53 < 2 ^ 53 * (T - N)" using h53 by simp
  then have gap: "half < T - N" by simp
  have "N < 2 ^ 53 * 2 ^ e"
  proof -
    have "n * m < n * 2 ^ e" using n(1) m(2) by simp
    also have "\<dots> \<le> 2 ^ 53 * 2 ^ e" using n(2) by simp
    finally show ?thesis by (simp add: N_def)
  qed
  with h53 have "half * 2 ^ 53 < 2 ^ e * 2 ^ 53" by (simp add: mult.commute)
  then have y: "half < 2 ^ e" by simp
  have "s - 1 < e" by (rule power_less_imp_less_exp [OF _ y [unfolded half_def]]) simp
  then have se: "s \<le> e" by simp
  define t where "t = n * 2 ^ (e - s)"
  have Tt: "T = t * 2 ^ s"
    using se by (simp add: T_def t_def power_add [symmetric])
  have Nqr: "N = q * 2 ^ s + r"
    unfolding q_def r_def by (rule div_mult_mod_eq [symmetric])
  have rlt: "r < 2 ^ s" by (simp add: r_def)
  have qt: "q < t"
  proof (rule ccontr)
    assume "\<not> q < t"
    then have "t * 2 ^ s \<le> q * 2 ^ s" by simp
    with Nqr Tt NT show False by simp
  qed
  have res: "round_to_double N
               = (if half < r \<or> (r = half \<and> odd q) then q + 1 else q) * 2 ^ s"
    using False by (simp add: round_to_double_def N_def [symmetric] Let_def s_def [symmetric]
        q_def r_def half_def)
  have "round_to_double N < T"
  proof (cases "q + 1 < t")
    case True
    then have "(q + 1) * 2 ^ s < t * 2 ^ s" by (intro mult_less_mono1) simp_all
    moreover have "round_to_double N \<le> (q + 1) * 2 ^ s" by (simp add: res)
    ultimately show ?thesis by (simp add: Tt)
  next
    case False
    with qt have teq: "t = q + 1" by simp
    have "T - N = 2 ^ s - r" using Nqr rlt by (simp add: Tt teq)
    with gap two_s have "r < half" by simp
    then have "round_to_double N = q * 2 ^ s" by (simp add: res)
    also have "\<dots> < t * 2 ^ s" using qt by simp
    finally show ?thesis by (simp add: Tt)
  qed
  then show ?thesis by (simp add: N_def T_def)
qed

lemma floor_of_product_less:
  assumes "0 < n" and "n < 2 ^ 53" and "m < 2 ^ 53" and "m < 2 ^ e"
  shows "floor_of_product n m e < n"
  using round_to_double_below [OF assms]
  by (simp add: floor_of_product_def less_mult_imp_div_less)

lemma js_index_in_set:
  assumes "0 \<le> i" and "i < int (length xs)"
  shows "js_index xs i \<in> set xs"
  using assms by (simp add: js_index_def)

text \<open>
  The product of three and the double 6004799503160661 / 2 ^ 53 lies halfway between
  two doubles and is rounded up to two.
\<close>

lemma floor_of_product_tie: "floor_of_product 3 6004799503160661 53 = 2"
proof -
  have bl: "bit_length 18014398509481983 = Suc 53"
    by (rule bit_length_eq) simp_all
  show ?thesis
    by (simp add: floor_of_product_def round_to_double_def bl Let_def)
qed

text \<open>
  Claim C7. For every user value delivered to the identity adapter (the animal list
  being a non-empty array, so shorter than \<open>2 ^ 32\<close>, and the random number a double in
  the half-open unit interval): a non-null user without a display name is given the name
  "Anonymous " followed by an element of the animal list, the name is sent to the
  identity record and becomes the user-name state; a non-null user with a display name
  has that name become the user-name state, and nothing is sent; a null user clears the
  user-name state. A display name counts as missing when it is null or empty, which is
  what the source tests.
\<close>

theorem firebaseUserAtom_write_name:
  assumes "animals \<noteq> []" and "length animals < 2 ^ 32" and "unit_double m e"
  shows "(\<not> truthy_str (displayName usr) \<longrightarrow>
            (\<exists>a \<in> set animals.
               firebaseUserAtom_write animals m e s (Some usr) =
                 (s\<lparr>baseFirebaseUserAtom := Some usr,
                    userNameAtom := Some (''Anonymous '' @ a)\<rparr>,
                  [UpdateProfile (Some (''Anonymous '' @ a))])))
       \<and> (truthy_str (displayName usr) \<longrightarrow>
            firebaseUserAtom_write animals m e s (Some usr) =
              (s\<lparr>baseFirebaseUserAtom := Some usr, userNameAtom := displayName usr\<rparr>, []))
       \<and> firebaseUserAtom_write animals m e s None =
            (s\<lparr>baseFirebaseUserAtom := None, userNameAtom := None\<rparr>, [])"
proof -
  let ?i = "floor_of_product (length animals) m e"
  have pos: "0 < length animals" using assms(1) by simp
  have "length animals < 2 ^ 32" by (rule assms(2))
  also have "(2::nat) ^ 32 < 2 ^ 53" by simp
  finally have small: "length animals < 2 ^ 53" .
  have "?i < length animals"
    using pos small assms(3) by (intro floor_of_product_less) (simp_all add: unit_double_def)
  then have mem: "js_index animals (int ?i) \<in> set animals"
    by (simp add: js_index_in_set)
  show ?thesis
    using mem by (auto simp: firebaseUserAtom_write_def Let_def)
qed

theorem firebaseUserAtom_write_name_witness:
  "[''Otter'', ''Lynx'', ''Heron''] \<noteq> []
   \<and> length [''Otter'', ''Lynx'', ''Heron''] < (2::nat) ^ 32
   \<and> unit_double 6004799503160661 53
   \<and> \<not> truthy_str (displayName \<lparr>uid = ''u1'', displayName = None\<rparr>)
   \<and> firebaseUserAtom_write [''Otter'', ''Lynx'', ''Heron''] 6004799503160661 53 null_atoms
        (Some \<lparr>uid = ''u1'', displayName = None\<rparr>) =
        (null_atoms\<lparr>baseFirebaseUserAtom := Some \<lparr>uid = ''u1'', displayName = None\<rparr>,
                    userNameAtom := Some ''Anonymous Heron''\<rparr>,
         [UpdateProfile (Some ''Anonymous Heron'')])
   \<and> truthy_str (displayName \<lparr>uid = ''u2'', displayName = Some ''Ada''\<rparr>)
   \<and> firebaseUserAtom_write [''Otter'', ''Lynx'', ''Heron''] 6004799503160661 53 null_atoms
        (Some \<lparr>uid = ''u2'', displayName = Some ''Ada''\<rparr>) =
        (null_atoms\<lparr>baseFirebaseUserAtom := Some \<lparr>uid = ''u2'', displayName = Some ''Ada''\<rparr>,
                    userNameAtom := Some ''Ada''\<rparr>, [])
   \<and> firebaseUserAtom_write [''Otter'', ''Lynx'', ''Heron''] 6004799503160661 53 null_atoms
        None =
        (null_atoms\<lparr>baseFirebaseUserAtom := None, userNameAtom := None\<rparr>, [])"
proof -
  have h1: "[''Otter'', ''Lynx'', ''Heron''] \<noteq> []" by simp
  have h2: "length [''Otter'', ''Lynx'', ''Heron''] < (2::nat) ^ 32" by simp
  have h3: "unit_double 6004799503160661 53" by (simp add: unit_double_def)
  have len3: "length [''Otter'', ''Lynx'', ''Heron''] = 3" by simp
  have ix: "floor_of_product (length [''Otter'', ''Lynx'', ''Heron'']) 6004799503160661 53 = 2"
    unfolding len3 by (rule floor_of_product_tie)
  have x: "firebaseUserAtom_write [''Otter'', ''Lynx'', ''Heron''] 6004799503160661 53 null_atoms
             (Some \<lparr>uid = ''u1'', displayName = None\<rparr>) =
             (null_atoms\<lparr>baseFirebaseUserAtom := Some \<lparr>uid = ''u1'', displayName = None\<rparr>,
                         userNameAtom := Some ''Anonymous Heron''\<rparr>,
              [UpdateProfile (Some ''Anonymous Heron'')])"
    using firebaseUserAtom_write_name [OF h1 h2 h3,
        where usr = "\<lparr>uid = ''u1'', displayName = None\<rparr>" and s = null_atoms]
    by (simp add: firebaseUserAtom_write_def Let_def ix del: length_Cons list.size)
      (simp add: js_index_def)
  show ?thesis
    using h1 h2 h3 x
      firebaseUserAtom_write_name [OF h1 h2 h3,
        where usr = "\<lparr>uid = ''u2'', displayName = Some ''Ada''\<rparr>" and s = null_atoms]
    by simp
qed

section \<open>Workspace reference resolver\<close>

lemma split_on_no_sep: "w \<in> set (split_on c s) \<Longrightarrow> c \<notin> set w"
  by (induction s arbitrary: w) (auto split: if_splits list.splits)

lemma split_on_not_Nil: "split_on c s \<noteq> []"
  by (induction s) (auto split: list.splits)

lemma split_on_whole: "c \<notin> set s \<Longrightarrow> split_on c s = [s]"
  by (induction s) auto

lemma split_on_head: "x \<noteq> c \<Longrightarrow> \<exists>w ws. split_on c (x # xs) = (x # w) # ws"
  using split_on_not_Nil [of c xs] by (cases "split_on c xs") auto

lemma split_path_dash_not_Nil: "split_path (CHR ''-'' # n) \<noteq> []"
proof -
  obtain w ws where "split_on (CHR ''/'') (CHR ''-'' # n) = (CHR ''-'' # w) # ws"
    using split_on_head [of "CHR ''-''" "CHR ''/''" n] by auto
  then show ?thesis by (simp add: split_path_def)
qed

text \<open>
  The key of the reference resolved for an identifier is never the identifier itself:
  it carries the dash, or is one segment of an identifier that has several.
\<close>

lemma key_child_dash_differs: "key_bang (child root (CHR ''-'' # n)) \<noteq> n"
proof (cases "CHR ''/'' \<in> set n")
  case True
  let ?segs = "split_path (CHR ''-'' # n)"
  have ne: "?segs \<noteq> []" by (rule split_path_dash_not_Nil)
  then have "last ?segs \<in> set ?segs" by simp
  then have "last ?segs \<in> set (split_on (CHR ''/'') (CHR ''-'' # n))"
    by (simp add: split_path_def)
  then have "CHR ''/'' \<notin> set (last ?segs)" by (rule split_on_no_sep)
  with True have "last ?segs \<noteq> n" by auto
  with ne show ?thesis by (simp add: key_bang_def key_def child_def root_def)
next
  case False
  then have "split_on (CHR ''/'') (CHR ''-'' # n) = [CHR ''-'' # n]"
    by (intro split_on_whole) simp
  then show ?thesis by (simp add: key_bang_def key_def child_def root_def split_path_def)
qed

text \<open>
  Resolving a non-empty identifier never leaves a state in which the re-entry guard
  holds for that identifier: the next call with it resolves again.
\<close>

lemma fileIdAtom_guard_stays_open:
  assumes "n \<noteq> []" and "\<not> already_loaded s (Some n)"
    and "fileIdAtom_write fresh search s (Some \<lparr>newId = Some n, isNewFile' = b\<rparr>) = Inr (s', nav)"
  shows "\<not> already_loaded s' (Some n)"
  using assms key_child_dash_differs [of n]
  by (auto simp: fileIdAtom_write_def checked_child_def already_loaded_def Let_def
      split: if_splits)

lemma split_abc: "split_path ''-abc'' = [''-abc'']"
  by (simp add: split_path_def)

lemma valid_abc: "isValidPathString ''-abc''"
  by (simp add: isValidPathString_def invalid_path_char_def)

text \<open>
  Claim C3 says that setting the resolver twice in a row with the same non-null
  identifier changes nothing the second time. The code at the identifier abc: the first
  call stores the key -abc; the second call compares -abc with abc, does not take the
  guard, and with the new-file flag navigates again; without the flag it overwrites the
  stored new-file flag, so that the state changes.
\<close>

theorem fileIdAtom_second_call_not_ignored:
  "fileIdAtom_write ''-Mfresh'' [] null_atoms (Some abc_new)
     = Inr (abc_loaded, [Navigate ''/abc'' True])
   \<and> baseFileIdAtom abc_loaded = Some \<lparr>id' = ''-abc'', isNewFile = True\<rparr>
   \<and> fileIdAtom_write ''-Mfresh'' [] abc_loaded (Some abc_new)
       = Inr (abc_loaded, [Navigate ''/abc'' True])
   \<and> fileIdAtom_write ''-Mfresh'' [] abc_loaded (Some abc_plain) = Inr (abc_reloaded, [])
   \<and> baseFileIdAtom abc_reloaded = Some \<lparr>id' = ''-abc'', isNewFile = False\<rparr>
   \<and> abc_reloaded \<noteq> abc_loaded"
proof -
  have a: "fileIdAtom_write ''-Mfresh'' [] null_atoms (Some abc_new)
             = Inr (abc_loaded, [Navigate ''/abc'' True])"
    by (simp add: abc_loaded_def abc_new_def fileIdAtom_write_def already_loaded_def
        null_atoms_def checked_child_def valid_abc child_def root_def split_abc key_bang_def
        key_def Let_def)
  have b: "baseFileIdAtom abc_loaded = Some \<lparr>id' = ''-abc'', isNewFile = True\<rparr>"
    by (simp add: abc_loaded_def)
  have c: "fileIdAtom_write ''-Mfresh'' [] abc_loaded (Some abc_new)
             = Inr (abc_loaded, [Navigate ''/abc'' True])"
    by (simp add: abc_loaded_def abc_new_def fileIdAtom_write_def already_loaded_def
        null_atoms_def checked_child_def valid_abc child_def root_def split_abc key_bang_def
        key_def Let_def)
  have d: "fileIdAtom_write ''-Mfresh'' [] abc_loaded (Some abc_plain) = Inr (abc_reloaded, [])"
    by (simp add: abc_loaded_def abc_reloaded_def abc_plain_def fileIdAtom_write_def
        already_loaded_def null_atoms_def checked_child_def valid_abc child_def root_def
        split_abc key_bang_def key_def Let_def)
  have e: "baseFileIdAtom abc_reloaded = Some \<lparr>id' = ''-abc'', isNewFile = False\<rparr>"
    by (simp add: abc_reloaded_def)
  from b e have "baseFileIdAtom abc_reloaded \<noteq> baseFileIdAtom abc_loaded" by simp
  then have f: "abc_reloaded \<noteq> abc_loaded" by auto
  from a b c d e f show ?thesis by simp
qed

section \<open>Workspace join protocol\<close>

text \<open>
  Claim C1. For every state in which the workspace reference, the user reference with a
  (non-empty) key and a non-empty user name are all set, join-as-owner issues exactly one
  operation, an update of the workspace reference that writes the presence record (name,
  color derived from the user key, permission OWNER) under users/<userKey> and
  READ_WRITE under settings/defaultPermission; when one of the three is missing it throws
  the error that names the missing one and touches the store not at all.
\<close>

theorem joinNewWorkspaceAsOwner_spec:
  "(firebaseRefAtom s = Some ref \<and> userRefAtom s = Some userRef \<and> key userRef = Some k
      \<and> k \<noteq> [] \<and> userNameAtom s = Some name \<and> name \<noteq> [] \<longrightarrow>
      joinNewWorkspaceAsOwnerAtom colorFromUserId st s =
        (issue_write st ref,
         [Update ref
            [(''users/'' @ k,
              JObj [(''name'', JStr name),
                    (''color'', JStr (colorFromUserId k)),
                    (''permission'', JStr ''OWNER'')]),
             (''settings/defaultPermission'', JStr ''READ_WRITE'')]]))
   \<and> (firebaseRefAtom s = None \<longrightarrow>
        joinNewWorkspaceAsOwnerAtom colorFromUserId st s =
          (Inl (Error ''ref must be set before workspace can be joined''), []))
   \<and> (firebaseRefAtom s \<noteq> None
        \<and> (userRefAtom s = None \<or> (\<exists>u. userRefAtom s = Some u \<and> \<not> truthy_str (key u))) \<longrightarrow>
        joinNewWorkspaceAsOwnerAtom colorFromUserId st s =
          (Inl (Error ''userRef (and userRef.key) must be set before workspace can be joined''),
           []))
   \<and> (firebaseRefAtom s \<noteq> None
        \<and> (\<exists>u. userRefAtom s = Some u \<and> truthy_str (key u))
        \<and> \<not> truthy_str (userNameAtom s) \<longrightarrow>
        joinNewWorkspaceAsOwnerAtom colorFromUserId st s =
          (Inl (Error ''user name must be set before workspace can be joined''), []))"
  by (auto simp: joinNewWorkspaceAsOwnerAtom_def Let_def split: option.splits)

theorem joinNewWorkspaceAsOwner_spec_witness:
  "firebaseRefAtom private_atoms = Some [''-abc'']
   \<and> userRefAtom private_atoms = Some [''-abc'', ''users'', ''u1'']
   \<and> key [''-abc'', ''users'', ''u1''] = Some ''u1''
   \<and> userNameAtom private_atoms = Some ''Anonymous Otter''
   \<and> joinNewWorkspaceAsOwnerAtom example_color (const_store (Inr JNull)) private_atoms =
        (Inr (),
         [Update [''-abc'']
            [(''users/u1'',
              JObj [(''name'', JStr ''Anonymous Otter''),
                    (''color'', JStr ''#u1''),
                    (''permission'', JStr ''OWNER'')]),
             (''settings/defaultPermission'', JStr ''READ_WRITE'')]])
   \<and> firebaseRefAtom null_atoms = None
   \<and> joinNewWorkspaceAsOwnerAtom example_color (const_store (Inr JNull)) null_atoms =
        (Inl (Error ''ref must be set before workspace can be joined''), [])
   \<and> \<not> truthy_str (userNameAtom unnamed_private_atoms)
   \<and> joinNewWorkspaceAsOwnerAtom example_color (const_store (Inr JNull))
        unnamed_private_atoms =
        (Inl (Error ''user name must be set before workspace can be joined''), [])"
proof -
  have a: "firebaseRefAtom private_atoms = Some [''-abc'']"
    and b: "userRefAtom private_atoms = Some [''-abc'', ''users'', ''u1'']"
    and c: "userNameAtom private_atoms = Some ''Anonymous Otter''"
    by (simp_all add: private_atoms_def null_atoms_def)
  have d: "key [''-abc'', ''users'', ''u1''] = Some ''u1''"
    by (simp add: key_def)
  have e: "firebaseRefAtom null_atoms = None"
    by (simp add: null_atoms_def)
  have f: "firebaseRefAtom unnamed_private_atoms = Some [''-abc'']"
    and g: "userRefAtom unnamed_private_atoms = Some [''-abc'', ''users'', ''u1'']"
    and h: "\<not> truthy_str (userNameAtom unnamed_private_atoms)"
    by (simp_all add: unnamed_private_atoms_def private_atoms_def null_atoms_def)
  show ?thesis
    using a b c d e f g h
      joinNewWorkspaceAsOwner_spec
        [where s = private_atoms and ref = "[''-abc'']"
           and userRef = "[''-abc'', ''users'', ''u1'']" and k = "''u1''"
           and name = "''Anonymous Otter''" and colorFromUserId = example_color
           and st = "const_store (Inr JNull)"]
      joinNewWorkspaceAsOwner_spec
        [where s = null_atoms and colorFromUserId = example_color
           and st = "const_store (Inr JNull)"]
      joinNewWorkspaceAsOwner_spec
        [where s = unnamed_private_atoms and colorFromUserId = example_color
           and st = "const_store (Inr JNull)"]
    by (simp add: issue_write_def const_store_def example_color_def)
qed

text \<open>
  Claim C10. Join-existing has a fourth precondition on top of the three it shares with
  join-as-owner: when the workspace's default permission is unset it throws an error and
  performs no read and no write; when the three shared preconditions hold the error is
  the one that names the permission, in a state where join-as-owner goes on to write.
\<close>

theorem joinExisting_permission_unset:
  assumes "defaultPermissionAtom s = None"
  shows "(\<exists>msg. joinExistingWorkspaceWithDefaultPermissionAtom colorFromUserId st s =
            (Inl (Error msg), []))
       \<and> (firebaseRefAtom s = Some ref \<and> userRefAtom s = Some userRef
            \<and> truthy_str (key userRef) \<and> truthy_str (userNameAtom s) \<longrightarrow>
            joinExistingWorkspaceWithDefaultPermissionAtom colorFromUserId st s =
              (Inl (Error ''permission must be set before workspace can be joined''), [])
            \<and> snd (joinNewWorkspaceAsOwnerAtom colorFromUserId st s) \<noteq> [])"
  using assms
  by (auto simp: joinExistingWorkspaceWithDefaultPermissionAtom_def
        joinNewWorkspaceAsOwnerAtom_def Let_def split: option.splits)

theorem joinExisting_permission_unset_witness:
  "defaultPermissionAtom unset_permission_atoms = None
   \<and> firebaseRefAtom unset_permission_atoms = Some [''-abc'']
   \<and> userRefAtom unset_permission_atoms = Some [''-abc'', ''users'', ''u1'']
   \<and> truthy_str (key [''-abc'', ''users'', ''u1''])
   \<and> truthy_str (userNameAtom unset_permission_atoms)
   \<and> joinExistingWorkspaceWithDefaultPermissionAtom example_color (const_store (Inr JNull))
        unset_permission_atoms =
        (Inl (Error ''permission must be set before workspace can be joined''), [])"
proof -
  have a: "defaultPermissionAtom unset_permission_atoms = None"
    and b: "firebaseRefAtom unset_permission_atoms = Some [''-abc'']"
    and c: "userRefAtom unset_permission_atoms = Some [''-abc'', ''users'', ''u1'']"
    and d: "truthy_str (userNameAtom unset_permission_atoms)"
    by (simp_all add: unset_permission_atoms_def private_atoms_def null_atoms_def)
  have e: "truthy_str (key [''-abc'', ''users'', ''u1''])"
    by (simp add: key_def)
  show ?thesis
    using a b c d e
      joinExisting_permission_unset
        [OF a, where ref = "[''-abc'']" and userRef = "[''-abc'', ''users'', ''u1'']"
           and colorFromUserId = example_color and st = "const_store (Inr JNull)"]
    by simp
qed

text \<open>
  Claim C2. For every invocation of join-existing that gets to the point-in-time read,
  that is, whose precondition checks pass (workspace reference, user reference with a key
  and a non-empty user name set, default permission set): when the default permission is
  PRIVATE and the user's stored record has no permission, the read is the only store
  operation and the call returns normally; a PERMISSION_DENIED failure of the read is
  swallowed, the call returns normally and nothing is written; any other failure of the
  read is thrown to the caller.
\<close>

theorem joinExisting_private:
  assumes "firebaseRefAtom s = Some ref" and "userRefAtom s = Some userRef"
    and "truthy_str (key userRef)" and "userNameAtom s = Some name" and "name \<noteq> []"
    and "defaultPermissionAtom s = Some perm"
  shows "(perm = PRIVATE \<and> once_value st userRef = Inr snap
            \<and> \<not> truthy (get_prop snap ''permission'') \<longrightarrow>
            joinExistingWorkspaceWithDefaultPermissionAtom colorFromUserId st s =
              (Inr (), [Once userRef]))
       \<and> (once_value st userRef = Inl e \<and> err_code e = Some ''PERMISSION_DENIED'' \<longrightarrow>
            joinExistingWorkspaceWithDefaultPermissionAtom colorFromUserId st s =
              (Inr (), [Once userRef]))
       \<and> (once_value st userRef = Inl e \<and> err_code e \<noteq> Some ''PERMISSION_DENIED'' \<longrightarrow>
            joinExistingWorkspaceWithDefaultPermissionAtom colorFromUserId st s =
              (Inl e, [Once userRef]))"
  using assms
  by (auto simp: joinExistingWorkspaceWithDefaultPermissionAtom_def on_snapshot_def
        catch_permission_denied_def Let_def split: option.splits)

theorem joinExisting_private_witness:
  "firebaseRefAtom private_atoms = Some [''-abc'']
   \<and> userRefAtom private_atoms = Some [''-abc'', ''users'', ''u1'']
   \<and> truthy_str (key [''-abc'', ''users'', ''u1''])
   \<and> userNameAtom private_atoms = Some ''Anonymous Otter''
   \<and> defaultPermissionAtom private_atoms = Some PRIVATE
   \<and> joinExistingWorkspaceWithDefaultPermissionAtom example_color (const_store (Inr JNull))
        private_atoms = (Inr (), [Once [''-abc'', ''users'', ''u1'']])
   \<and> joinExistingWorkspaceWithDefaultPermissionAtom example_color
        (const_store (Inl permission_denied)) private_atoms =
        (Inr (), [Once [''-abc'', ''users'', ''u1'']])
   \<and> joinExistingWorkspaceWithDefaultPermissionAtom example_color
        (const_store (Inl network_error)) private_atoms =
        (Inl network_error, [Once [''-abc'', ''users'', ''u1'']])"
proof -
  have a: "firebaseRefAtom private_atoms = Some [''-abc'']"
    and b: "userRefAtom private_atoms = Some [''-abc'', ''users'', ''u1'']"
    and d: "userNameAtom private_atoms = Some ''Anonymous Otter''"
    and f: "defaultPermissionAtom private_atoms = Some PRIVATE"
    by (simp_all add: private_atoms_def null_atoms_def)
  have c: "truthy_str (key [''-abc'', ''users'', ''u1''])"
    by (simp add: key_def)
  have e: "''Anonymous Otter'' \<noteq> []" by simp
  show ?thesis
    using a b c d f
      joinExisting_private [OF a b c d e f,
        where st = "const_store (Inr JNull)" and snap = JNull
          and colorFromUserId = example_color]
      joinExisting_private [OF a b c d e f,
        where st = "const_store (Inl permission_denied)" and e = permission_denied
          and colorFromUserId = example_color]
      joinExisting_private [OF a b c d e f,
        where st = "const_store (Inl network_error)" and e = network_error
          and colorFromUserId = example_color]
    by (simp add: const_store_def permission_denied_def network_error_def)
qed

lemma catch_permission_denied_Inr: "catch_permission_denied (Inr u) = Inr u"
  by (simp add: catch_permission_denied_def)

text \<open>
  Claim C5. For every invocation of join-existing that gets past the private-file check
  (preconditions met, the read answered with a snapshot, and the default permission not
  PRIVATE or a permission stored for the user): when the stored record has no name, the
  one write is an update of the user's record with exactly name and color; when the
  stored name differs from the session's name, the one write sets the name child of the
  record to the session's name; when the stored name equals the session's name, nothing
  is written. A stored name counts as missing when it is absent or falsy, which is what
  the source tests.
\<close>

theorem joinExisting_name_cases:
  assumes "firebaseRefAtom s = Some ref" and "userRefAtom s = Some userRef"
    and "truthy_str (key userRef)" and "userNameAtom s = Some name" and "name \<noteq> []"
    and "defaultPermissionAtom s = Some perm" and "once_value st userRef = Inr snap"
    and "\<not> (perm = PRIVATE \<and> \<not> truthy (get_prop snap ''permission''))"
  shows "(\<not> truthy (get_prop snap ''name'') \<longrightarrow>
            joinExistingWorkspaceWithDefaultPermissionAtom colorFromUserId st s =
              (catch_permission_denied (issue_write st userRef),
               [Once userRef,
                Update userRef
                  [(''name'', JStr name),
                   (''color'', JStr (colorFromUserId (key_bang userRef)))]]))
       \<and> (truthy (get_prop snap ''name'') \<and> get_prop snap ''name'' \<noteq> JStr name \<longrightarrow>
            joinExistingWorkspaceWithDefaultPermissionAtom colorFromUserId st s =
              (catch_permission_denied (issue_write st (child userRef ''name'')),
               [Once userRef, SetValue (child userRef ''name'') (JStr name)]))
       \<and> (get_prop snap ''name'' = JStr name \<longrightarrow>
            joinExistingWorkspaceWithDefaultPermissionAtom colorFromUserId st s =
              (Inr (), [Once userRef]))"
  using assms
  by (auto simp: joinExistingWorkspaceWithDefaultPermissionAtom_def on_snapshot_def
        catch_permission_denied_Inr Let_def split: option.splits)

theorem joinExisting_name_cases_witness:
  "firebaseRefAtom shared_atoms = Some [''-abc'']
   \<and> userRefAtom shared_atoms = Some [''-abc'', ''users'', ''u1'']
   \<and> truthy_str (key [''-abc'', ''users'', ''u1''])
   \<and> userNameAtom shared_atoms = Some ''Anonymous Otter''
   \<and> defaultPermissionAtom shared_atoms = Some READ_WRITE
   \<and> joinExistingWorkspaceWithDefaultPermissionAtom example_color (const_store (Inr JNull))
        shared_atoms =
        (Inr (),
         [Once [''-abc'', ''users'', ''u1''],
          Update [''-abc'', ''users'', ''u1'']
            [(''name'', JStr ''Anonymous Otter''), (''color'', JStr ''#u1'')]])
   \<and> joinExistingWorkspaceWithDefaultPermissionAtom example_color
        (const_store (Inr record_of_other_name)) shared_atoms =
        (Inr (),
         [Once [''-abc'', ''users'', ''u1''],
          SetValue [''-abc'', ''users'', ''u1'', ''name''] (JStr ''Anonymous Otter'')])
   \<and> joinExistingWorkspaceWithDefaultPermissionAtom example_color
        (const_store (Inr record_of_same_name)) shared_atoms =
        (Inr (), [Once [''-abc'', ''users'', ''u1'']])"
proof -
  have a: "firebaseRefAtom shared_atoms = Some [''-abc'']"
    and b: "userRefAtom shared_atoms = Some [''-abc'', ''users'', ''u1'']"
    and d: "userNameAtom shared_atoms = Some ''Anonymous Otter''"
    and f: "defaultPermissionAtom shared_atoms = Some READ_WRITE"
    by (simp_all add: shared_atoms_def private_atoms_def null_atoms_def)
  have c: "truthy_str (key [''-abc'', ''users'', ''u1''])"
    by (simp add: key_def)
  have e: "''Anonymous Otter'' \<noteq> []" by simp
  have g: "\<not> (READ_WRITE = PRIVATE \<and> \<not> truthy (get_prop snap ''permission''))" for snap
    by simp
  have r1: "once_value (const_store (Inr JNull)) [''-abc'', ''users'', ''u1''] = Inr JNull"
    and r2: "once_value (const_store (Inr record_of_other_name)) [''-abc'', ''users'', ''u1'']
               = Inr record_of_other_name"
    and r3: "once_value (const_store (Inr record_of_same_name)) [''-abc'', ''users'', ''u1'']
               = Inr record_of_same_name"
    by (simp_all add: const_store_def)
  have nm: "split_path ''name'' = [''name'']"
    by (simp add: split_path_def)
  show ?thesis
    using a b c d f
      joinExisting_name_cases [OF a b c d e f r1 g, where colorFromUserId = example_color]
      joinExisting_name_cases [OF a b c d e f r2 g, where colorFromUserId = example_color]
      joinExisting_name_cases [OF a b c d e f r3 g, where colorFromUserId = example_color]
    by (simp add: const_store_def record_of_other_name_def record_of_same_name_def
        issue_write_def catch_permission_denied_def example_color_def key_bang_def key_def
        child_def nm)
qed

section \<open>Copy flow\<close>

text \<open>
  Claim C9. For every source identifier whose length is not 19, and for a missing
  identifier, the copy flow performs no read and no write of the store: all it does is
  alert "Error: Bad URL" and navigate to the start page, replacing history; its own
  state is unchanged and nothing is thrown.
\<close>

theorem CopyFilePage_bad_url:
  assumes "fileId = None \<or> (\<exists>queryId. fileId = Some queryId \<and> length queryId \<noteq> 19)"
  shows "CopyFilePage_effect st fresh fresh2 search pg fileId =
           (Inr (), pg, [Alert ''Error: Bad URL'', Navigate ''/'' True])"
  using assms by (auto simp: CopyFilePage_effect_def)

theorem CopyFilePage_bad_url_witness:
  "length ''abc'' \<noteq> 19
   \<and> CopyFilePage_effect source_store ''-Mnew'' ''-Mnew2'' [] copy_page (Some ''abc'') =
       (Inr (), copy_page, [Alert ''Error: Bad URL'', Navigate ''/'' True])
   \<and> CopyFilePage_effect source_store ''-Mnew'' ''-Mnew2'' [] copy_page None =
       (Inr (), copy_page, [Alert ''Error: Bad URL'', Navigate ''/'' True])
   \<and> store_ops [Alert ''Error: Bad URL'', Navigate ''/'' True] = []"
proof -
  have a: "Some ''abc'' = None \<or> (\<exists>queryId. Some ''abc'' = Some queryId \<and> length queryId \<noteq> 19)"
    by simp
  have b: "(None :: string option) = None
             \<or> (\<exists>queryId. (None :: string option) = Some queryId \<and> length queryId \<noteq> 19)"
    by simp
  show ?thesis
    using CopyFilePage_bad_url [OF a, of source_store "''-Mnew''" "''-Mnew2''" "[]" copy_page]
      CopyFilePage_bad_url [OF b, of source_store "''-Mnew''" "''-Mnew2''" "[]" copy_page]
    by (simp add: store_ops_def)
qed

lemma promise_all_map_Inr:
  "(\<forall>x \<in> set xs. f x = Inr (g x)) \<Longrightarrow> promise_all (map f xs) = Inr (map g xs)"
  by (induction xs) auto

lemma store_ops_reads: "store_ops (map (Once \<circ> f) ks) = map (Once \<circ> f) ks"
  by (induction ks) (auto simp: store_ops_def)

lemma store_ops_append: "store_ops (xs @ ys) = store_ops xs @ store_ops ys"
  by (simp add: store_ops_def)

lemma store_ops_set: "store_ops (SetValue r v # es) = SetValue r v # store_ops es"
  by (simp add: store_ops_def)

lemma store_ops_Nil: "store_ops [] = []"
  by (simp add: store_ops_def)

lemma store_ops_nav:
  "fileIdAtom_write fresh search s pl = Inr (s', nav) \<Longrightarrow> store_ops nav = []"
  by (auto simp: fileIdAtom_write_def store_ops_def Let_def
      split: option.splits if_splits sum.splits)

lemma store_ops_catch: "store_ops (snd (snd (copy_catch pg e effs))) = store_ops effs"
  by (simp add: copy_catch_def store_ops_def)

lemma toKeep_object:
  "toKeep (JObj kvs) =
     JObj (filter (\<lambda>(k, _). k \<noteq> ''users'' \<and> k \<noteq> ''defaultPermission'') kvs)"
  by (simp add: toKeep_def)

lemma toKeep_unchanged:
  "(\<forall>k \<in> fst ` set kvs. k \<noteq> ''users'' \<and> k \<noteq> ''defaultPermission'')
     \<Longrightarrow> toKeep (JObj kvs) = JObj kvs"
  by (auto simp: toKeep_def intro!: filter_True)

text \<open>The constant paths of the sources pass the library's check.\<close>

lemma constant_paths_valid: "list_all isValidPathString keysToCopy \<and> isValidPathString ''name''"
  by (simp add: keysToCopy_def isValidPathString_def invalid_path_char_def)

text \<open>A source identifier that the library rejects: the effect throws and does nothing.\<close>

lemma copy_invalid_path:
  assumes "length queryId = 19" and "\<not> isValidPathString (CHR ''-'' # queryId)"
  shows "CopyFilePage_effect st fresh fresh2 search pg (Some queryId) =
           (Inl (invalid_path_error ''database.ref'' (CHR ''-'' # queryId)), pg, [])"
  using assms by (simp add: CopyFilePage_effect_def database_ref_def)

lemma copy_store_ops:
  assumes "length queryId = 19"
    and "isValidPathString (CHR ''-'' # queryId)"
    and "\<forall>k \<in> set keysToCopy.
           once_value st (child (split_path (CHR ''-'' # queryId)) k) = Inr (src k)"
  shows "store_ops (snd (snd (CopyFilePage_effect st fresh fresh2 search pg (Some queryId)))) =
           map (\<lambda>k. Once (child (split_path (CHR ''-'' # queryId)) k)) keysToCopy
           @ [SetValue (push root fresh)
                (JObj [(''editor-cpp'', toKeep (src ''editor-cpp'')),
                       (''editor-java'', toKeep (src ''editor-java'')),
                       (''editor-py'', toKeep (src ''editor-py'')),
                       (''settings'', toKeep (src ''settings'')),
                       (''input'', toKeep (src ''input''))])]"
proof -
  let ?old = "split_path (CHR ''-'' # queryId)"
  let ?reads = "map (child ?old) keysToCopy"
  let ?obj = "JObj (map (\<lambda>(k, v). (k, toKeep v)) (zip keysToCopy (map src keysToCopy)))"
  let ?set = "fileIdAtom_write fresh2 search (page_atoms pg)
                (Some \<lparr>newId = Some (drop 1 (key_bang (push root fresh))),
                       isNewFile' = Some True\<rparr>)"
  have db: "database_ref (CHR ''-'' # queryId) = Inr ?old"
    using assms(2) by (simp add: database_ref_def)
  have pa: "promise_all (map (once_value st) ?reads) = Inr (map src keysToCopy)"
    using promise_all_map_Inr [of keysToCopy "\<lambda>k. once_value st (child ?old k)" src] assms(3)
    by (simp add: comp_def)
  have ops: "store_ops (snd (snd (CopyFilePage_effect st fresh fresh2 search pg (Some queryId))))
               = map Once ?reads @ [SetValue (push root fresh) ?obj]"
  proof (cases "write_result st (push root fresh)")
    case (Some e)
    then show ?thesis
      using assms(1) db pa
      by (simp add: CopyFilePage_effect_def Let_def store_ops_catch store_ops_append
          store_ops_reads store_ops_set store_ops_Nil)
  next
    case None
    show ?thesis
    proof (cases ?set)
      case (Inl e)
      with None show ?thesis
        using assms(1) db pa
        by (simp add: CopyFilePage_effect_def Let_def store_ops_catch store_ops_append
            store_ops_reads store_ops_set store_ops_Nil)
    next
      case (Inr res)
      then obtain s' nav where res: "?set = Inr (s', nav)" by (cases res) auto
      then have "store_ops nav = []" by (rule store_ops_nav)
      with None res show ?thesis
        using assms(1) db pa
        by (simp add: CopyFilePage_effect_def Let_def store_ops_append store_ops_reads
            store_ops_set store_ops_Nil)
    qed
  qed
  have obj: "?obj = JObj [(''editor-cpp'', toKeep (src ''editor-cpp'')),
                       (''editor-java'', toKeep (src ''editor-java'')),
                       (''editor-py'', toKeep (src ''editor-py'')),
                       (''settings'', toKeep (src ''settings'')),
                       (''input'', toKeep (src ''input''))]"
    by (simp add: keysToCopy_def)
  have rd: "map Once ?reads = map (\<lambda>k. Once (child ?old k)) keysToCopy"
    by (simp add: comp_def)
  from ops obj rd show ?thesis by simp
qed

text \<open>
  Claim C4, as the code has it. For every source identifier of length 19 that the
  store client accepts in a path (none of the characters [ ] . # $ and no control
  character) and whose five reads are answered, the store operations of the copy flow
  are the five reads and one write, which sets the newly allocated reference to an
  object with exactly the keys editor-cpp, editor-java, editor-py, settings and input.
  Each of the five holds what is left of the source field after its top-level users and
  defaultPermission entries are removed: the removal is applied to every whitelisted
  field, not to settings alone. An object without these two entries is copied
  unchanged, and a missing field is written as the empty object.
\<close>

theorem CopyFilePage_writes_whitelist:
  assumes "length queryId = 19"
    and "isValidPathString (CHR ''-'' # queryId)"
    and "\<forall>k \<in> set keysToCopy.
           once_value st (child (split_path (CHR ''-'' # queryId)) k) = Inr (src k)"
  shows "store_ops (snd (snd (CopyFilePage_effect st fresh fresh2 search pg (Some queryId)))) =
           map (\<lambda>k. Once (child (split_path (CHR ''-'' # queryId)) k)) keysToCopy
           @ [SetValue (push root fresh)
                (JObj [(''editor-cpp'', toKeep (src ''editor-cpp'')),
                       (''editor-java'', toKeep (src ''editor-java'')),
                       (''editor-py'', toKeep (src ''editor-py'')),
                       (''settings'', toKeep (src ''settings'')),
                       (''input'', toKeep (src ''input''))])]
         \<and> (\<forall>kvs. toKeep (JObj kvs) =
                JObj (filter (\<lambda>(k, _). k \<noteq> ''users'' \<and> k \<noteq> ''defaultPermission'') kvs))
         \<and> (\<forall>kvs. (\<forall>k \<in> fst ` set kvs. k \<noteq> ''users'' \<and> k \<noteq> ''defaultPermission'')
                \<longrightarrow> toKeep (JObj kvs) = JObj kvs)
         \<and> toKeep JNull = JObj []"
proof -
  have tk: "toKeep JNull = JObj []" by (simp add: toKeep_def)
  from copy_store_ops [OF assms] tk toKeep_object toKeep_unchanged show ?thesis
    by (simp only:) blast
qed

lemma source_id_valid: "isValidPathString (CHR ''-'' # source_id)"
  by (simp add: source_id_def isValidPathString_def invalid_path_char_def)

lemma source_reads:
  "\<forall>k \<in> set keysToCopy.
     once_value source_store (child (split_path (CHR ''-'' # source_id)) k) = Inr (source_field k)"
  by (simp add: keysToCopy_def source_store_def child_def split_path_def)

text \<open>
  The source field editor-cpp holds a users entry; the copy drops it, so that this
  field, which is not the settings field, is not copied unchanged.
\<close>

theorem CopyFilePage_strips_editor_users:
  "length source_id = 19
   \<and> once_value source_store (child (split_path (CHR ''-'' # source_id)) ''editor-cpp'')
       = Inr source_cpp
   \<and> store_ops (snd (snd (CopyFilePage_effect source_store ''-Mnew'' ''-Mnew2'' [] copy_page
                            (Some source_id)))) =
       [Once [''-Mabcdefghijklmnopqr'', ''editor-cpp''],
        Once [''-Mabcdefghijklmnopqr'', ''editor-java''],
        Once [''-Mabcdefghijklmnopqr'', ''editor-py''],
        Once [''-Mabcdefghijklmnopqr'', ''settings''],
        Once [''-Mabcdefghijklmnopqr'', ''input''],
        SetValue [''-Mnew'']
          (JObj [(''editor-cpp'', JObj [(''history'', JStr ''h'')]),
                 (''editor-java'', JObj []),
                 (''editor-py'', JObj []),
                 (''settings'', JObj [(''workspaceName'', JStr ''w'')]),
                 (''input'', JObj [])])]
   \<and> JObj [(''history'', JStr ''h'')] \<noteq> source_cpp"
proof -
  have a: "length source_id = 19" by (simp add: source_id_def)
  have sp: "split_path (CHR ''-'' # source_id) = [''-Mabcdefghijklmnopqr'']"
    by (simp add: source_id_def split_path_def)
  have b: "once_value source_store (child (split_path (CHR ''-'' # source_id)) ''editor-cpp'')
             = Inr source_cpp"
    using source_reads by (simp add: keysToCopy_def source_field_def)
  have c: "store_ops (snd (snd (CopyFilePage_effect source_store ''-Mnew'' ''-Mnew2'' [] copy_page
                            (Some source_id)))) =
       [Once [''-Mabcdefghijklmnopqr'', ''editor-cpp''],
        Once [''-Mabcdefghijklmnopqr'', ''editor-java''],
        Once [''-Mabcdefghijklmnopqr'', ''editor-py''],
        Once [''-Mabcdefghijklmnopqr'', ''settings''],
        Once [''-Mabcdefghijklmnopqr'', ''input''],
        SetValue [''-Mnew'']
          (JObj [(''editor-cpp'', JObj [(''history'', JStr ''h'')]),
                 (''editor-java'', JObj []),
                 (''editor-py'', JObj []),
                 (''settings'', JObj [(''workspaceName'', JStr ''w'')]),
                 (''input'', JObj [])])]"
    by (simp add: copy_store_ops [OF a source_id_valid source_reads] sp)
      (simp add: keysToCopy_def child_def split_path_def push_def root_def
        toKeep_def source_field_def source_cpp_def source_settings_def)
  have d: "JObj [(''history'', JStr ''h'')] \<noteq> source_cpp"
    by (simp add: source_cpp_def)
  from a b c d show ?thesis by simp
qed

theorem CopyFilePage_writes_whitelist_witness:
  "length source_id = 19
   \<and> isValidPathString (CHR ''-'' # source_id)
   \<and> once_value source_store (child (split_path (CHR ''-'' # source_id)) ''settings'')
       = Inr source_settings
   \<and> store_ops (snd (snd (CopyFilePage_effect source_store ''-Mnew'' ''-Mnew2'' [] copy_page
                            (Some source_id)))) =
       map (\<lambda>k. Once (child (split_path (CHR ''-'' # source_id)) k)) keysToCopy
       @ [SetValue (push root ''-Mnew'')
            (JObj [(''editor-cpp'', toKeep source_cpp),
                   (''editor-java'', toKeep JNull),
                   (''editor-py'', toKeep JNull),
                   (''settings'', toKeep source_settings),
                   (''input'', toKeep JNull)])]
   \<and> toKeep source_settings = JObj [(''workspaceName'', JStr ''w'')]"
proof -
  have a: "length source_id = 19" by (simp add: source_id_def)
  have b: "once_value source_store (child (split_path (CHR ''-'' # source_id)) ''settings'')
             = Inr source_settings"
    using source_reads by (simp add: keysToCopy_def source_field_def)
  have t: "toKeep source_settings = JObj [(''workspaceName'', JStr ''w'')]"
    by (simp add: toKeep_def source_settings_def)
  show ?thesis
    using a b t source_id_valid
      CopyFilePage_writes_whitelist [OF a source_id_valid source_reads,
        of "''-Mnew''" "''-Mnew2''" "[]" copy_page]
    by (simp add: source_field_def)
qed

section \<open>Settings modal\<close>

lemma map_add_covered: "dom m \<subseteq> dom n \<Longrightarrow> m ++ n = n"
proof (rule ext)
  fix k
  assume sub: "dom m \<subseteq> dom n"
  show "(m ++ n) k = n k"
  proof (cases "n k")
    case None
    then have "k \<notin> dom m" using sub by auto
    then have "m k = None" by auto
    with None show ?thesis by (simp add: map_add_def)
  next
    case (Some v)
    then show ?thesis by (simp add: map_add_def)
  qed
qed

text \<open>
  What the handlers do in every state. The opening merges the committed workspace
  settings over the draft, reseeds the name and the editor mode and clears the dirty
  flag; each of the three edit handlers sets the dirty flag; \<^verbatim>\<open>closeWithoutSaving\<close> on a
  dirty draft closes only with the confirmation; the handler wired to the dialog itself
  closes whatever the dirty flag says.
\<close>

lemma SettingsModal_handlers:
  "workspaceSettings (isOpen_effect True c m) = workspaceSettings m ++ realWorkspaceSettings c
   \<and> (\<forall>k v. realWorkspaceSettings c k = Some v \<longrightarrow>
          workspaceSettings (isOpen_effect True c m) k = Some v)
   \<and> (dom (workspaceSettings m) \<subseteq> dom (realWorkspaceSettings c) \<longrightarrow>
          workspaceSettings (isOpen_effect True c m) = realWorkspaceSettings c)
   \<and> modal_name (isOpen_effect True c m) =
        (case firebaseUser c of
           None \<Rightarrow> None
         | Some usr \<Rightarrow> if truthy_str (displayName usr) then displayName usr else None)
   \<and> editorMode (isOpen_effect True c m) = editorModeAtom c
   \<and> \<not> dirtyRef (isOpen_effect True c m)
   \<and> dirtyRef (onChange data m)
   \<and> dirtyRef (onNameChange n m)
   \<and> dirtyRef (onEditorModeChange mode m)
   \<and> (dirtyRef m \<longrightarrow>
          closeWithoutSaving False m = (m, []) \<and> closeWithoutSaving True m = (m, [OnClose]))
   \<and> Dialog_onClose m = (m, [OnClose])"
  by (simp add: isOpen_effect_def reducer_def onChange_def onNameChange_def
      onEditorModeChange_def closeWithoutSaving_def Dialog_onClose_def map_add_covered)

text \<open>
  Claim C8 says that every opening seeds the draft from the last committed values and
  clears the dirty flag, that every edit sets the flag, and that a dirty modal is not
  closed without saving unless the user confirms. The code, from the committed settings
  with the one key defaultPermission: the modal is opened and an edit adds the key
  workspaceName, which sets the flag. Closing through the dialog's own handler then
  closes the dirty modal with no confirmation asked, where the Cancel button with the
  confirmation refused leaves it open. After the edit is discarded and the modal opened
  again, the flag is clear, yet the draft still holds the discarded workspaceName, which
  the committed settings do not have: the draft was not seeded from the committed values.
\<close>

theorem SettingsModal_reopen_keeps_discarded_edit:
  "dirtyRef edited
   \<and> closeWithoutSaving False edited = (edited, [])
   \<and> Dialog_onClose edited = (edited, [OnClose])
   \<and> closeWithoutSaving True edited = (edited, [OnClose])
   \<and> \<not> dirtyRef reopened
   \<and> workspaceSettings reopened ''workspaceName'' = Some (JStr ''x'')
   \<and> realWorkspaceSettings committed0 ''workspaceName'' = None
   \<and> workspaceSettings reopened \<noteq> realWorkspaceSettings committed0"
proof -
  have a: "dirtyRef edited" by (simp add: edited_def onChange_def)
  then have b: "closeWithoutSaving True edited = (edited, [OnClose])"
    and b': "closeWithoutSaving False edited = (edited, [])"
    by (simp_all add: closeWithoutSaving_def)
  have b'': "Dialog_onClose edited = (edited, [OnClose])"
    by (simp add: Dialog_onClose_def)
  have c: "workspaceSettings reopened ''workspaceName'' = Some (JStr ''x'')"
    by (simp add: reopened_def b)
      (simp add: edited_def onChange_def isOpen_effect_def reducer_def
        SettingsModal_init_def committed0_def rename_edit_def)
  have c': "\<not> dirtyRef reopened"
    by (simp add: reopened_def isOpen_effect_def)
  have d: "realWorkspaceSettings committed0 ''workspaceName'' = None"
    by (simp add: committed0_def)
  from c d have "workspaceSettings reopened ''workspaceName''
                   \<noteq> realWorkspaceSettings committed0 ''workspaceName''"
    by simp
  then have e: "workspaceSettings reopened \<noteq> realWorkspaceSettings committed0"
    by auto
  from a b b' b'' c c' d e show ?thesis by simp
qed

end
